theory Spec2Isabelle
  imports Main
begin

section \<open>Python values and their text forms\<close>

text \<open>
  The expression context of \<^verbatim>\<open>template_engine.py\<close> is a \<^verbatim>\<open>dict[str, Any]\<close> holding
  scalars. A dict iterates in insertion order and \<^verbatim>\<open>process_template\<close> depends on that
  order, so a context is an association list; \<^verbatim>\<open>data.get(k, d)\<close> is \<open>map_of\<close> with a default.
  Characters are code points below 256.
\<close>

datatype pyval = PNone | PBool bool | PInt int | PStr string

type_synonym ctx = "(string \<times> pyval) list"

definition digit_char :: "nat \<Rightarrow> char" where
  "digit_char d = ''0123456789'' ! d"

function nat_str :: "nat \<Rightarrow> string" where
  "nat_str n = (if n < 10 then [digit_char n] else nat_str (n div 10) @ [digit_char (n mod 10)])"
  by pat_completeness auto
termination
  by (relation "measure id") auto

declare nat_str.simps [simp del]

text \<open>\<^verbatim>\<open>str(value)\<close>, which is also what an f-string field produces.\<close>

fun py_str :: "pyval \<Rightarrow> string" where
  "py_str PNone = ''None''"
| "py_str (PBool b) = (if b then ''True'' else ''False'')"
| "py_str (PInt i) = (if i < 0 then CHR ''-'' # nat_str (nat (- i)) else nat_str (nat i))"
| "py_str (PStr s) = s"

text \<open>Python's truth value of a scalar.\<close>

fun py_truthy :: "pyval \<Rightarrow> bool" where
  "py_truthy PNone = False"
| "py_truthy (PBool b) = b"
| "py_truthy (PInt i) = (i \<noteq> 0)"
| "py_truthy (PStr s) = (s \<noteq> [])"

definition ascii_lower :: string where
  "ascii_lower = ''abcdefghijklmnopqrstuvwxyz''"

definition ascii_upper :: string where
  "ascii_upper = ''ABCDEFGHIJKLMNOPQRSTUVWXYZ''"

definition ascii_digits :: string where
  "ascii_digits = ''0123456789''"

text \<open>The letters, digits and numerics of Latin-1 above ASCII (the rest of \<^verbatim>\<open>\w\<close>).\<close>

definition latin1_alnum :: string where
  "latin1_alnum =
     [CHR 0xAA, CHR 0xB2, CHR 0xB3, CHR 0xB5, CHR 0xB9, CHR 0xBA, CHR 0xBC, CHR 0xBD, CHR 0xBE,
      CHR 0xC0, CHR 0xC1, CHR 0xC2, CHR 0xC3, CHR 0xC4, CHR 0xC5, CHR 0xC6, CHR 0xC7,
      CHR 0xC8, CHR 0xC9, CHR 0xCA, CHR 0xCB, CHR 0xCC, CHR 0xCD, CHR 0xCE, CHR 0xCF,
      CHR 0xD0, CHR 0xD1, CHR 0xD2, CHR 0xD3, CHR 0xD4, CHR 0xD5, CHR 0xD6,
      CHR 0xD8, CHR 0xD9, CHR 0xDA, CHR 0xDB, CHR 0xDC, CHR 0xDD, CHR 0xDE, CHR 0xDF,
      CHR 0xE0, CHR 0xE1, CHR 0xE2, CHR 0xE3, CHR 0xE4, CHR 0xE5, CHR 0xE6, CHR 0xE7,
      CHR 0xE8, CHR 0xE9, CHR 0xEA, CHR 0xEB, CHR 0xEC, CHR 0xED, CHR 0xEE, CHR 0xEF,
      CHR 0xF0, CHR 0xF1, CHR 0xF2, CHR 0xF3, CHR 0xF4, CHR 0xF5, CHR 0xF6,
      CHR 0xF8, CHR 0xF9, CHR 0xFA, CHR 0xFB, CHR 0xFC, CHR 0xFD, CHR 0xFE, CHR 0xFF]"

text \<open>\<^verbatim>\<open>\s\<close> and \<^verbatim>\<open>\w\<close> of a str pattern.\<close>

definition is_space :: "char \<Rightarrow> bool" where
  "is_space c \<longleftrightarrow>
     c \<in> set [CHR '' '', CHR 0x09, CHR 0x0A, CHR 0x0B, CHR 0x0C, CHR 0x0D,
               CHR 0x1C, CHR 0x1D, CHR 0x1E, CHR 0x1F, CHR 0x85, CHR 0xA0]"

definition is_word :: "char \<Rightarrow> bool" where
  "is_word c \<longleftrightarrow>
     c \<in> set ascii_lower \<or> c \<in> set ascii_upper \<or> c \<in> set ascii_digits \<or> c = CHR ''_''
       \<or> c \<in> set latin1_alnum"

text \<open>
  \<^verbatim>\<open>str.lower()\<close>. The source compares the result with ASCII words only, so the case
  mapping of the ASCII letters is what decides; the Latin-1 capitals map to Latin-1 letters.
\<close>

definition latin1_upper :: string where
  "latin1_upper =
     [CHR 0xC0, CHR 0xC1, CHR 0xC2, CHR 0xC3, CHR 0xC4, CHR 0xC5, CHR 0xC6, CHR 0xC7,
      CHR 0xC8, CHR 0xC9, CHR 0xCA, CHR 0xCB, CHR 0xCC, CHR 0xCD, CHR 0xCE, CHR 0xCF,
      CHR 0xD0, CHR 0xD1, CHR 0xD2, CHR 0xD3, CHR 0xD4, CHR 0xD5, CHR 0xD6,
      CHR 0xD8, CHR 0xD9, CHR 0xDA, CHR 0xDB, CHR 0xDC, CHR 0xDD, CHR 0xDE]"

definition latin1_lower :: string where
  "latin1_lower =
     [CHR 0xE0, CHR 0xE1, CHR 0xE2, CHR 0xE3, CHR 0xE4, CHR 0xE5, CHR 0xE6, CHR 0xE7,
      CHR 0xE8, CHR 0xE9, CHR 0xEA, CHR 0xEB, CHR 0xEC, CHR 0xED, CHR 0xEE, CHR 0xEF,
      CHR 0xF0, CHR 0xF1, CHR 0xF2, CHR 0xF3, CHR 0xF4, CHR 0xF5, CHR 0xF6,
      CHR 0xF8, CHR 0xF9, CHR 0xFA, CHR 0xFB, CHR 0xFC, CHR 0xFD, CHR 0xFE]"

definition lower_char :: "char \<Rightarrow> char" where
  "lower_char c =
     (case map_of (zip (ascii_upper @ latin1_upper) (ascii_lower @ latin1_lower)) c of
        Some l \<Rightarrow> l
      | None \<Rightarrow> c)"

definition lower :: "string \<Rightarrow> string" where
  "lower s = map lower_char s"

section \<open>The regular expressions of Python's re module\<close>

text \<open>
  The patterns of the source use literals, character classes, sequence, the greedy repeats
  \<^verbatim>\<open>*\<close> and \<^verbatim>\<open>+\<close>, the lazy repeat \<^verbatim>\<open>*?\<close> and numbered groups. \<open>rmatch\<close> is the
  backtracking matcher: it tries the alternatives in Python's priority order and calls the
  continuation \<open>k\<close> on the rest of the input and the groups captured so far; the first
  alternative on which the continuation succeeds is the match.
\<close>

datatype rx = Eps | Chr char | Cls "char \<Rightarrow> bool" | Seq rx rx | Star rx | Lazy rx | Grp nat rx

type_synonym caps = "nat \<rightharpoonup> string"

fun rmatch :: "rx \<Rightarrow> string \<Rightarrow> caps \<Rightarrow> (string \<Rightarrow> caps \<Rightarrow> 'a option) \<Rightarrow> 'a option" where
  "rmatch Eps s c k = k s c"
| "rmatch (Chr x) s c k = (case s of [] \<Rightarrow> None | y # ys \<Rightarrow> if y = x then k ys c else None)"
| "rmatch (Cls P) s c k = (case s of [] \<Rightarrow> None | y # ys \<Rightarrow> if P y then k ys c else None)"
| "rmatch (Seq a b) s c k = rmatch a s c (\<lambda>s' c'. rmatch b s' c' k)"
| "rmatch (Star a) s c k =
     (case rmatch a s c
             (\<lambda>s' c'. if length s' < length s then rmatch (Star a) s' c' k else None) of
        Some r \<Rightarrow> Some r
      | None \<Rightarrow> k s c)"
| "rmatch (Lazy a) s c k =
     (case k s c of
        Some r \<Rightarrow> Some r
      | None \<Rightarrow>
          rmatch a s c
            (\<lambda>s' c'. if length s' < length s then rmatch (Lazy a) s' c' k else None))"
| "rmatch (Grp n a) s c k =
     rmatch a s c (\<lambda>s' c'. k s' (c'(n \<mapsto> take (length s - length s') s)))"

declare rmatch.simps(5,6) [simp del]

text \<open>\<^verbatim>\<open>r+\<close> is one \<open>r\<close> and then \<^verbatim>\<open>r*\<close>; a pattern is the sequence of its parts.\<close>

definition plus :: "rx \<Rightarrow> rx" where
  "plus r = Seq r (Star r)"

definition seqs :: "rx list \<Rightarrow> rx" where
  "seqs rs = foldr Seq rs Eps"

definition lit :: "string \<Rightarrow> rx list" where
  "lit s = map Chr s"

definition ws0 :: rx where
  "ws0 = Star (Cls is_space)"

definition ws1 :: rx where
  "ws1 = plus (Cls is_space)"

text \<open>
  The scan shared by \<^verbatim>\<open>re.sub\<close> and \<^verbatim>\<open>re.findall\<close>: the leftmost match, then the next one
  after it. An unmatched character is \<open>Inl\<close>, a match is \<open>Inr\<close> with its text and groups.
  After an empty match the next match at the same place must not be empty
  (\<open>must_advance\<close>, Python 3.7 and later).
\<close>

function scan :: "rx \<Rightarrow> bool \<Rightarrow> string \<Rightarrow> (char + string \<times> caps) list" where
  "scan r must_advance s =
     (case rmatch r s Map.empty
             (\<lambda>s' c. if must_advance \<and> length s' = length s then None else Some (s', c)) of
        Some (s', c) \<Rightarrow>
          if length s' < length s then Inr (take (length s - length s') s, c) # scan r False s'
          else if \<not> must_advance then Inr ([], c) # scan r True s
          else (case s of [] \<Rightarrow> [] | x # xs \<Rightarrow> Inl x # scan r False xs)
      | None \<Rightarrow> (case s of [] \<Rightarrow> [] | x # xs \<Rightarrow> Inl x # scan r False xs))"
  by pat_completeness auto
termination
  by (relation "measure (\<lambda>(r, m, s). 2 * length s + (if m then 0 else 1))") auto

declare scan.simps [simp del]

text \<open>\<^verbatim>\<open>re.sub\<close> with a function as replacement: the function gets the match.\<close>

definition re_sub :: "rx \<Rightarrow> (string \<Rightarrow> caps \<Rightarrow> string) \<Rightarrow> string \<Rightarrow> string" where
  "re_sub r f s =
     concat (map (\<lambda>it. case it of Inl x \<Rightarrow> [x] | Inr (m, c) \<Rightarrow> f m c) (scan r False s))"


section \<open>Replacement templates of re.sub\<close>

text \<open>
  When the replacement of \<^verbatim>\<open>re.sub\<close> is a string, it is a template: a string without
  backslash is taken literally, any other is compiled by \<^verbatim>\<open>parse_template\<close> before the
  scan starts, and the compilation raises on a bad escape, a lone backslash at the end, an
  unknown group name or a reference to a group the pattern does not have. \<open>None\<close> is the
  raised exception (\<^verbatim>\<open>re.error\<close> or \<^verbatim>\<open>IndexError\<close>). The compiler modelled is that of
  Python 3.12. The patterns of the source have no named group, so a group name that is not
  a decimal number always raises.
\<close>

datatype titem = TLit string | TRef nat

definition backslash :: char where
  "backslash = CHR 0x5C"

definition octdigits :: string where
  "octdigits = ''01234567''"

definition digit_val :: "char \<Rightarrow> nat" where
  "digit_val d = (case map_of (zip ascii_digits [0 ..< 10]) d of Some n \<Rightarrow> n | None \<Rightarrow> 0)"

definition digits_val :: "nat \<Rightarrow> string \<Rightarrow> nat" where
  "digits_val base ds = foldl (\<lambda>a d. a * base + digit_val d) 0 ds"

text \<open>\<^verbatim>\<open>Tokenizer.getuntil(">")\<close>: the name up to the closing bracket, and what follows it.\<close>

fun getuntil :: "string \<Rightarrow> (string \<times> string) option" where
  "getuntil [] = None"
| "getuntil (c # rest) =
     (if c = CHR ''>'' then Some ([], rest)
      else if c = backslash then
        (case rest of
           [] \<Rightarrow> None
         | d # rest' \<Rightarrow> map_option (\<lambda>(n, r). (c # d # n, r)) (getuntil rest'))
      else map_option (\<lambda>(n, r). (c # n, r)) (getuntil rest))"

text \<open>\<^verbatim>\<open>ESCAPES\<close> of the parser, as far as a replacement template uses them.\<close>

definition escapes :: "char \<rightharpoonup> char" where
  "escapes = map_of
     [(CHR ''a'', CHR 0x07), (CHR ''b'', CHR 0x08), (CHR ''f'', CHR 0x0C), (CHR ''n'', CHR 0x0A),
      (CHR ''r'', CHR 0x0D), (CHR ''t'', CHR 0x09), (CHR ''v'', CHR 0x0B),
      (backslash, backslash)]"

definition nonzero_digits :: string where
  "nonzero_digits = ''123456789''"

definition addgroup :: "nat \<Rightarrow> nat \<Rightarrow> string \<Rightarrow> (titem \<times> string) option" where
  "addgroup groups index rest = (if index > groups then None else Some (TRef index, rest))"

text \<open>
  One escape of the template, read after its backslash: each function gives the item and the
  rest of the template. \<open>named_group\<close> reads \<^verbatim>\<open>\g<name>\<close> after the \<^verbatim>\<open>g\<close>,
  \<open>octal_zero\<close> reads \<^verbatim>\<open>\0\<close> with up to two more octal digits, \<open>digit_escape\<close> reads a
  group number of one or two digits or an octal escape of three.
\<close>

definition named_group :: "nat \<Rightarrow> string \<Rightarrow> (titem \<times> string) option" where
  "named_group groups rest =
     (case rest of
        [] \<Rightarrow> None
      | b # rest1 \<Rightarrow>
          if b \<noteq> CHR ''<'' then None
          else
            (case getuntil rest1 of
               None \<Rightarrow> None
             | Some (name, rest2) \<Rightarrow>
                 if name = [] \<or> \<not> list_all (\<lambda>d. d \<in> set ascii_digits) name then None
                 else addgroup groups (digits_val 10 name) rest2))"

definition octal_zero :: "string \<Rightarrow> (titem \<times> string) option" where
  "octal_zero rest =
     (case rest of
        [] \<Rightarrow> Some (TLit [char_of (0::nat)], rest)
      | d1 # rest1 \<Rightarrow>
          if d1 \<in> set octdigits then
            (case rest1 of
               [] \<Rightarrow> Some (TLit [char_of (digits_val 8 [d1] mod 256)], rest1)
             | d2 # rest2 \<Rightarrow>
                 if d2 \<in> set octdigits
                 then Some (TLit [char_of (digits_val 8 [d1, d2] mod 256)], rest2)
                 else Some (TLit [char_of (digits_val 8 [d1] mod 256)], rest1))
          else Some (TLit [char_of (0::nat)], rest))"

definition digit_escape :: "nat \<Rightarrow> char \<Rightarrow> string \<Rightarrow> (titem \<times> string) option" where
  "digit_escape groups c rest =
     (case rest of
        [] \<Rightarrow> addgroup groups (digit_val c) rest
      | d # rest1 \<Rightarrow>
          if d \<in> set ascii_digits then
            (case rest1 of
               [] \<Rightarrow> addgroup groups (digits_val 10 [c, d]) rest1
             | e # rest2 \<Rightarrow>
                 if c \<in> set octdigits \<and> d \<in> set octdigits \<and> e \<in> set octdigits then
                   (if digits_val 8 [c, d, e] > 255 then None
                    else Some (TLit [char_of (digits_val 8 [c, d, e])], rest2))
                 else addgroup groups (digits_val 10 [c, d]) rest1)
          else addgroup groups (digit_val c) rest)"

definition escape_item :: "nat \<Rightarrow> string \<Rightarrow> (titem \<times> string) option" where
  "escape_item groups s =
     (case s of
        [] \<Rightarrow> None
      | c # rest \<Rightarrow>
          if c = CHR ''g'' then named_group groups rest
          else if c = CHR ''0'' then octal_zero rest
          else if c \<in> set nonzero_digits then digit_escape groups c rest
          else
            (case escapes c of
               Some x \<Rightarrow> Some (TLit [x], rest)
             | None \<Rightarrow>
                 if c \<in> set ascii_lower \<or> c \<in> set ascii_upper then None
                 else Some (TLit [backslash, c], rest)))"

lemma getuntil_shorter: "getuntil s = Some (n, r) \<Longrightarrow> length r < length s"
proof (induction s arbitrary: n r rule: getuntil.induct)
  case 1
  then show ?case by simp
next
  case (2 c rest)
  then show ?case
    by (fastforce split: if_splits list.splits)
qed

lemma addgroup_rest: "addgroup g i rest = Some (it, r) \<Longrightarrow> r = rest"
  by (simp add: addgroup_def split: if_splits)

lemma named_group_shorter: "named_group g s = Some (it, r) \<Longrightarrow> length r \<le> length s"
  unfolding named_group_def
  by (auto split: list.splits if_splits option.splits dest!: getuntil_shorter addgroup_rest)

lemma octal_zero_shorter: "octal_zero s = Some (it, r) \<Longrightarrow> length r \<le> length s"
  unfolding octal_zero_def
  by (auto split: list.splits if_splits)

lemma digit_escape_shorter: "digit_escape g c s = Some (it, r) \<Longrightarrow> length r \<le> length s"
  unfolding digit_escape_def
  by (auto split: list.splits if_splits dest!: addgroup_rest)

lemma escape_item_shorter: "escape_item g s = Some (it, r) \<Longrightarrow> length r \<le> length s"
  unfolding escape_item_def
  by (auto split: list.splits if_splits option.splits
           dest!: named_group_shorter octal_zero_shorter digit_escape_shorter)

function parse_template :: "nat \<Rightarrow> string \<Rightarrow> titem list option" where
  "parse_template groups [] = Some []"
| "parse_template groups (c # rest) =
     (if c \<noteq> backslash then map_option ((#) (TLit [c])) (parse_template groups rest)
      else
        (case escape_item groups rest of
           None \<Rightarrow> None
         | Some (it, rest') \<Rightarrow> map_option ((#) it) (parse_template groups rest')))"
  by pat_completeness auto
termination
  by (relation "measure (\<lambda>(g, s). length s)") (auto dest: escape_item_shorter)

text \<open>
  Expanding a compiled template at a match: group 0 is the whole match, a group that did
  not take part in the match expands to the empty string.
\<close>

definition group :: "caps \<Rightarrow> nat \<Rightarrow> string" where
  "group c n = (case c n of Some g \<Rightarrow> g | None \<Rightarrow> [])"

definition expand :: "titem list \<Rightarrow> string \<Rightarrow> caps \<Rightarrow> string" where
  "expand items m c =
     concat (map (\<lambda>it. case it of TLit s \<Rightarrow> s | TRef n \<Rightarrow> if n = 0 then m else group c n) items)"

text \<open>\<^verbatim>\<open>re.sub(pattern, repl, string)\<close> with a string \<open>repl\<close>; \<open>groups\<close> is the pattern's group count.\<close>

definition re_sub_str :: "rx \<Rightarrow> nat \<Rightarrow> string \<Rightarrow> string \<Rightarrow> string option" where
  "re_sub_str r groups repl s =
     (if backslash \<notin> set repl then Some (re_sub r (\<lambda>m c. repl) s)
      else
        (case parse_template groups repl of
           None \<Rightarrow> None
         | Some items \<Rightarrow> Some (re_sub r (expand items) s)))"

section \<open>The template engine\<close>

text \<open>The patterns of \<^verbatim>\<open>template_engine.py\<close>, each beside the regular expression it embeds.\<close>

definition not_close :: "char \<Rightarrow> bool" where
  "not_close c \<longleftrightarrow> c \<noteq> CHR ''}''"

definition not_quote :: "char \<Rightarrow> bool" where
  "not_quote c \<longleftrightarrow> c \<noteq> CHR 0x22"

text \<open>\<^verbatim>\<open>\{\{\s*KEY\s*\}\}\<close>, where \<^verbatim>\<open>re.escape(key)\<close> makes the key match itself.\<close>

definition key_pattern :: "string \<Rightarrow> rx" where
  "key_pattern key = seqs (lit ''{{'' @ [ws0] @ lit key @ [ws0] @ lit ''}}'')"

text \<open>\<^verbatim>\<open>\{\{\s*"([^"]*?)"\s+if\s+(\w+)\s+else\s+"([^"]*?)"\s*\}\}\<close>\<close>

definition conditional_pattern :: rx where
  "conditional_pattern =
     seqs (lit ''{{'' @ [ws0, Chr (CHR 0x22), Grp 1 (Lazy (Cls not_quote)), Chr (CHR 0x22), ws1]
           @ lit ''if'' @ [ws1, Grp 2 (plus (Cls is_word)), ws1] @ lit ''else''
           @ [ws1, Chr (CHR 0x22), Grp 3 (Lazy (Cls not_quote)), Chr (CHR 0x22), ws0]
           @ lit ''}}'')"

text \<open>\<^verbatim>\<open>\{\{\s*(\w+)\s+if\s+(\w+)\s+else\s+"([^"]*?)"\s*\}\}\<close>\<close>

definition value_conditional_pattern :: rx where
  "value_conditional_pattern =
     seqs (lit ''{{'' @ [ws0, Grp 1 (plus (Cls is_word)), ws1]
           @ lit ''if'' @ [ws1, Grp 2 (plus (Cls is_word)), ws1] @ lit ''else''
           @ [ws1, Chr (CHR 0x22), Grp 3 (Lazy (Cls not_quote)), Chr (CHR 0x22), ws0]
           @ lit ''}}'')"

text \<open>
  \<^verbatim>\<open>\{\{\s*">=" \+ coverage_threshold\|string \+ "%"\s+if\s+coverage_threshold\s+else\s+"optional"\s*\}\}\<close>
\<close>

definition threshold_optional_pattern :: rx where
  \<open>threshold_optional_pattern =
     seqs (lit ''{{'' @ [ws0] @ lit ''">=" + coverage_threshold|string + "%"'' @ [ws1]
           @ lit ''if'' @ [ws1] @ lit ''coverage_threshold'' @ [ws1] @ lit ''else'' @ [ws1]
           @ lit ''"optional"'' @ [ws0] @ lit ''}}'')\<close>

text \<open>
  \<^verbatim>\<open>\{\{\s*coverage_threshold\|string \+ "%"\s+if\s+coverage_threshold\s+else\s+"80%"\s*\}\}\<close>
\<close>

definition threshold_default_pattern :: rx where
  \<open>threshold_default_pattern =
     seqs (lit ''{{'' @ [ws0] @ lit ''coverage_threshold|string + "%"'' @ [ws1]
           @ lit ''if'' @ [ws1] @ lit ''coverage_threshold'' @ [ws1] @ lit ''else'' @ [ws1]
           @ lit ''"80%"'' @ [ws0] @ lit ''}}'')\<close>

text \<open>\<^verbatim>\<open>\{\{\s*"true"\s+if\s+project_type\s*==\s*"web"\s+else\s+"false"\s*\}\}\<close>\<close>

definition web_pattern :: rx where
  \<open>web_pattern =
     seqs (lit ''{{'' @ [ws0] @ lit ''"true"'' @ [ws1] @ lit ''if'' @ [ws1]
           @ lit ''project_type'' @ [ws0] @ lit ''=='' @ [ws0] @ lit ''"web"'' @ [ws1]
           @ lit ''else'' @ [ws1] @ lit ''"false"'' @ [ws0] @ lit ''}}'')\<close>

text \<open>\<^verbatim>\<open>\{\{\s*performance_target_ms\s+if\s+performance_target_ms\s+else\s+"200"\s*\}\}\<close>\<close>

definition performance_pattern :: rx where
  \<open>performance_pattern =
     seqs (lit ''{{'' @ [ws0] @ lit ''performance_target_ms'' @ [ws1] @ lit ''if'' @ [ws1]
           @ lit ''performance_target_ms'' @ [ws1] @ lit ''else'' @ [ws1]
           @ lit ''"200"'' @ [ws0] @ lit ''}}'')\<close>

text \<open>\<^verbatim>\<open>\{\{\s*[^}]+\s*\}\}\<close>\<close>

definition cleanup_pattern :: rx where
  "cleanup_pattern =
     seqs (lit ''{{'' @ [ws0, plus (Cls not_close), ws0] @ lit ''}}'')"

text \<open>
  The loop of \<^verbatim>\<open>process_template\<close> over \<^verbatim>\<open>project_data.items()\<close>: \<open>None\<close> becomes the
  empty string, a boolean \<^verbatim>\<open>true\<close> or \<^verbatim>\<open>false\<close>, and \<^verbatim>\<open>str(value)\<close> is the replacement
  string handed to \<^verbatim>\<open>re.sub\<close>.
\<close>

fun text_form :: "pyval \<Rightarrow> string" where
  "text_form PNone = []"
| "text_form (PBool b) = (if b then ''true'' else ''false'')"
| "text_form v = py_str v"

fun substitute_keys :: "ctx \<Rightarrow> string \<Rightarrow> string option" where
  "substitute_keys [] content = Some content"
| "substitute_keys ((key, v) # rest) content =
     (case re_sub_str (key_pattern key) 0 (text_form v) content of
        None \<Rightarrow> None
      | Some content' \<Rightarrow> substitute_keys rest content')"

text \<open>
  The condition of both conditional forms: \<^verbatim>\<open>data.get(condition_var, False)\<close>, a string
  counting as true only when its lower-case form is one of four words.
\<close>

definition condition_value :: "ctx \<Rightarrow> string \<Rightarrow> bool" where
  "condition_value data condition_var =
     (case map_of data condition_var of
        None \<Rightarrow> False
      | Some (PStr s) \<Rightarrow> lower s \<in> set [''true'', ''1'', ''yes'', ''on'']
      | Some v \<Rightarrow> py_truthy v)"

definition replace_conditional :: "ctx \<Rightarrow> string \<Rightarrow> caps \<Rightarrow> string" where
  "replace_conditional data m c =
     (let true_text = group c 1; condition_var = group c 2; false_text = group c 3
      in if condition_value data condition_var then true_text else false_text)"

definition replace_value_conditional :: "ctx \<Rightarrow> string \<Rightarrow> caps \<Rightarrow> string" where
  "replace_value_conditional data m c =
     (let value_var = group c 1; condition_var = group c 2; default_text = group c 3
      in if condition_value data condition_var
         then py_str (case map_of data value_var of None \<Rightarrow> PStr [] | Some v \<Rightarrow> v)
         else default_text)"

definition process_specific_patterns :: "string \<Rightarrow> ctx \<Rightarrow> string option" where
  "process_specific_patterns content data =
     (let coverage_threshold = (case map_of data ''coverage_threshold'' of None \<Rightarrow> PNone | Some v \<Rightarrow> v);
          covered =
            (if py_truthy coverage_threshold then
               (case re_sub_str threshold_optional_pattern 0
                       (''>='' @ py_str coverage_threshold @ ''%'') content of
                  None \<Rightarrow> None
                | Some content1 \<Rightarrow>
                    re_sub_str threshold_default_pattern 0 (py_str coverage_threshold @ ''%'') content1)
             else
               (case re_sub_str threshold_optional_pattern 0 ''optional'' content of
                  None \<Rightarrow> None
                | Some content1 \<Rightarrow> re_sub_str threshold_default_pattern 0 ''80%'' content1))
      in case covered of
           None \<Rightarrow> None
         | Some content2 \<Rightarrow>
             (let project_type =
                    (case map_of data ''project_type'' of None \<Rightarrow> PStr ''unknown'' | Some v \<Rightarrow> v);
                  is_web = (if project_type = PStr ''web'' then ''true'' else ''false'')
              in case re_sub_str web_pattern 0 is_web content2 of
                   None \<Rightarrow> None
                 | Some content3 \<Rightarrow>
                     (let performance_target =
                            (case map_of data ''performance_target_ms'' of
                               None \<Rightarrow> PInt 200
                             | Some v \<Rightarrow> v)
                      in re_sub_str performance_pattern 0 (py_str performance_target) content3)))"

definition process_conditionals :: "string \<Rightarrow> ctx \<Rightarrow> string option" where
  "process_conditionals content data =
     (let content1 = re_sub conditional_pattern (replace_conditional data) content;
          content2 = re_sub value_conditional_pattern (replace_value_conditional data) content1
      in process_specific_patterns content2 data)"

text \<open>
  \<^verbatim>\<open>process_template\<close> on the text of the template file: the key loop, the conditionals and
  the cleanup of what is left. \<open>None\<close> is an exception leaving the function.
\<close>

definition process_template :: "string \<Rightarrow> ctx \<Rightarrow> string option" where
  "process_template template data =
     (case substitute_keys data template of
        None \<Rightarrow> None
      | Some content \<Rightarrow>
          (case process_conditionals content data of
             None \<Rightarrow> None
           | Some content' \<Rightarrow> re_sub_str cleanup_pattern 0 [] content'))"

text \<open>
  \<^verbatim>\<open>render_template_string\<close> writes the string to a temporary file, has \<^verbatim>\<open>process_template\<close>
  read it back and removes the file: the text processed is the string given.
\<close>

definition render_template_string :: "string \<Rightarrow> ctx \<Rightarrow> string option" where
  "render_template_string template_str data = process_template template_str data"

section \<open>The template validator\<close>



text \<open>\<^verbatim>\<open>sub in s\<close> on strings.\<close>

fun py_in :: "string \<Rightarrow> string \<Rightarrow> bool" where
  "py_in sub [] = (sub = [])"
| "py_in sub (x # xs) = (take (length sub) (x # xs) = sub \<or> py_in sub xs)"






section \<open>The updater\<close>

text \<open>
  Modelled from the spec: the enum \<^verbatim>\<open>FileType\<close> is declared in
  \<^verbatim>\<open>quaestor.core.project_metadata\<close>; the spec gives it four variants.
\<close>

datatype FileType = System | UserEditable | Command | Other

text \<open>
  A path is either under the project's \<^verbatim>\<open>target_dir\<close>, written relative to it as
  \<^verbatim>\<open>relative_to(target_dir)\<close> gives it, or a file of \<^verbatim>\<open>~/.claude/commands\<close>.
\<close>

datatype path = Project string | Commands string

text \<open>
  Modelled from the spec: the class \<^verbatim>\<open>FileManifest\<close> of \<^verbatim>\<open>quaestor.core.project_metadata\<close>.
  A manifest is the tool version and one entry per relative path; an entry holds the file's
  type, its version and the content it was written with, as modification baseline.
\<close>

record entry =
  etype :: FileType
  eversion :: string
  baseline :: string

record file_manifest =
  tool_version :: "string option"
  entries :: "string \<rightharpoonup> entry"

text \<open>Every change the updater makes to the world is also written to a trace, in order.\<close>

datatype event =
    Backup
  | Set_version string
  | Mkdir path
  | Write_text path string
  | Track_file string
  | Save

text \<open>
  The world: the files, the manifest object of the run, the manifest on disk, the backups
  made. A backup copies the installation below \<^verbatim>\<open>.quaestor/.backup/TIMESTAMP\<close>, where no
  step of the update reads or writes; the copies are kept apart from \<open>files\<close>.
\<close>

record world =
  files :: "path \<rightharpoonup> string"
  manifest :: file_manifest
  saved_manifest :: file_manifest
  backups :: "(path \<rightharpoonup> string) list"
  trace :: "event list"

text \<open>
  What the updater takes from outside \<^verbatim>\<open>updater.py\<close>: the constants of the package, the
  helpers of \<^verbatim>\<open>project_metadata\<close> it calls, the shipped resources and the failures of the
  file system. A read, a directory creation or a write either happens or raises; the text
  given is \<^verbatim>\<open>str(e)\<close> of the exception.
\<close>

record env =
  version :: string
  command_files :: "string list"
  config_start :: string
  config_end :: string
  categorize_file :: "path \<Rightarrow> string \<Rightarrow> FileType"
  extract_version_from_content :: "string \<Rightarrow> string option"
  is_file_modified :: "file_manifest \<Rightarrow> (path \<rightharpoonup> string) \<Rightarrow> string \<Rightarrow> bool"
  read_resource :: "string \<Rightarrow> string \<Rightarrow> string + string"
  mkdir_error :: "path \<Rightarrow> string option"
  write_error :: "path \<Rightarrow> string option"
  read_error :: "path \<Rightarrow> string option"
  backup_error :: "string option"

record UpdateResult =
  updated :: "string list"
  skipped :: "string list"
  added :: "string list"
  failed :: "(string \<times> string) list"
  backed_up :: "string list"

definition new_result :: UpdateResult where
  "new_result = \<lparr>updated = [], skipped = [], added = [], failed = [], backed_up = []\<rparr>"

definition path_exists :: "world \<Rightarrow> path \<Rightarrow> bool" where
  "path_exists w p \<longleftrightarrow> files w p \<noteq> None"

text \<open>
  Modelled from the spec: \<^verbatim>\<open>set_quaestor_version\<close>, \<^verbatim>\<open>track_file\<close> and \<^verbatim>\<open>save\<close> of
  \<^verbatim>\<open>FileManifest\<close>. They change the manifest object, and \<open>save\<close> writes it to disk. The
  spec has a failure of the manifest's own reading and writing end the run; here these
  operations succeed, and the failures modelled are those of the files and resources that
  \<^verbatim>\<open>updater.py\<close> itself reads and writes.
\<close>

definition set_quaestor_version :: "string \<Rightarrow> world \<Rightarrow> world" where
  "set_quaestor_version v w =
     w\<lparr>manifest := (manifest w)\<lparr>tool_version := Some v\<rparr>, trace := trace w @ [Set_version v]\<rparr>"

definition track_file :: "string \<Rightarrow> FileType \<Rightarrow> string \<Rightarrow> world \<Rightarrow> world" where
  "track_file rel file_type v w =
     w\<lparr>manifest := (manifest w)\<lparr>entries := (entries (manifest w))
            (rel \<mapsto> \<lparr>etype = file_type, eversion = v,
                       baseline = (case files w (Project rel) of None \<Rightarrow> [] | Some c \<Rightarrow> c)\<rparr>)\<rparr>,
       trace := trace w @ [Track_file rel]\<rparr>"

definition save :: "world \<Rightarrow> world" where
  "save w = w\<lparr>saved_manifest := manifest w, trace := trace w @ [Save]\<rparr>"

text \<open>\<^verbatim>\<open>mkdir(parents=True, exist_ok=True)\<close> and \<^verbatim>\<open>write_text\<close>: \<open>Inl\<close> is the exception.\<close>

definition mkdir :: "env \<Rightarrow> path \<Rightarrow> world \<Rightarrow> string + world" where
  "mkdir e dir w =
     (case mkdir_error e dir of
        Some err \<Rightarrow> Inl err
      | None \<Rightarrow> Inr (w\<lparr>trace := trace w @ [Mkdir dir]\<rparr>))"

definition write_text :: "env \<Rightarrow> path \<Rightarrow> string \<Rightarrow> world \<Rightarrow> string + world" where
  "write_text e p content w =
     (case write_error e p of
        Some err \<Rightarrow> Inl err
      | None \<Rightarrow> Inr (w\<lparr>files := (files w)(p \<mapsto> content), trace := trace w @ [Write_text p content]\<rparr>))"

definition read_text :: "env \<Rightarrow> path \<Rightarrow> world \<Rightarrow> string + string" where
  "read_text e p w =
     (case read_error e p of
        Some err \<Rightarrow> Inl err
      | None \<Rightarrow> (case files w p of None \<Rightarrow> Inl ''No such file or directory'' | Some c \<Rightarrow> Inr c))"

text \<open>\<^verbatim>\<open>_create_backup\<close>: the copy succeeds, or its exception is caught and nothing is reported.\<close>

definition create_backup :: "env \<Rightarrow> world \<Rightarrow> world" where
  "create_backup e w =
     (case backup_error e of
        Some err \<Rightarrow> w
      | None \<Rightarrow> w\<lparr>backups := backups w @ [files w], trace := trace w @ [Backup]\<rparr>)"

text \<open>The string methods the updater uses: \<^verbatim>\<open>startswith\<close>, \<^verbatim>\<open>replace\<close>, \<^verbatim>\<open>find\<close> and slices.\<close>

definition startswith :: "string \<Rightarrow> string \<Rightarrow> bool" where
  "startswith prefix s \<longleftrightarrow> take (length prefix) s = prefix"

function py_replace :: "string \<Rightarrow> string \<Rightarrow> string \<Rightarrow> string" where
  "py_replace old new s =
     (if old = [] then new @ concat (map (\<lambda>x. x # new) s)
      else if length s < length old then s
      else if take (length old) s = old then new @ py_replace old new (drop (length old) s)
      else hd s # py_replace old new (tl s))"
  by pat_completeness auto
termination
  by (relation "measure (\<lambda>(old, new, s). length s)") (auto simp: neq_Nil_conv)

declare py_replace.simps [simp del]

fun py_find :: "string \<Rightarrow> string \<Rightarrow> int" where
  "py_find sub [] = (if sub = [] then 0 else - 1)"
| "py_find sub (x # xs) =
     (if take (length sub) (x # xs) = sub then 0
      else (let i = py_find sub xs in if i < 0 then - 1 else i + 1))"

text \<open>\<^verbatim>\<open>s[a:b]\<close>: a negative index counts from the end, and both are clipped to the string.\<close>

definition slice_index :: "string \<Rightarrow> int \<Rightarrow> nat" where
  "slice_index s i =
     (let n = int (length s) in nat (if i < 0 then max 0 (i + n) else min i n))"

definition py_slice :: "string \<Rightarrow> int \<Rightarrow> int \<Rightarrow> string" where
  "py_slice s a b = take (slice_index s b - slice_index s a) (drop (slice_index s a) s)"

definition slice_to :: "string \<Rightarrow> int \<Rightarrow> string" where
  "slice_to s b = take (slice_index s b) s"

definition slice_from :: "string \<Rightarrow> int \<Rightarrow> string" where
  "slice_from s a = drop (slice_index s a) s"

text \<open>\<^verbatim>\<open>QuaestorUpdater._should_update_file\<close>\<close>

definition should_update_file :: "env \<Rightarrow> world \<Rightarrow> string \<Rightarrow> FileType \<Rightarrow> bool \<Rightarrow> bool" where
  "should_update_file e w rel file_type force =
     (if force then True
      else if \<not> path_exists w (Project rel) then True
      else if file_type = System then True
      else if file_type = UserEditable then False
      else \<not> is_file_modified e (manifest w) (files w) rel)"

definition files_to_process :: "(string \<times> string) list" where
  "files_to_process =
     [(''QUAESTOR_CLAUDE.md'', ''.quaestor/QUAESTOR_CLAUDE.md''),
      (''CRITICAL_RULES.md'', ''.quaestor/CRITICAL_RULES.md''),
      (''templates/ARCHITECTURE.template.md'', ''.quaestor/ARCHITECTURE.md''),
      (''templates/MEMORY.template.md'', ''.quaestor/MEMORY.md'')]"

definition read_shipped :: "env \<Rightarrow> string \<Rightarrow> string + string" where
  "read_shipped e resource_name =
     (if startswith ''templates/'' resource_name
      then read_resource e ''quaestor.templates'' (py_replace ''templates/'' [] resource_name)
      else read_resource e ''quaestor'' resource_name)"

definition fail :: "string \<Rightarrow> string \<Rightarrow> UpdateResult \<Rightarrow> UpdateResult" where
  "fail name err result = result\<lparr>failed := failed result @ [(name, err)]\<rparr>"

text \<open>
  The body of the loop of \<^verbatim>\<open>_update_quaestor_files\<close> for one candidate, a resource name
  and the target's relative path. The target's directory is \<^verbatim>\<open>.quaestor\<close>.
\<close>

definition update_quaestor_file ::
  "env \<Rightarrow> bool \<Rightarrow> bool \<Rightarrow> string \<times> string \<Rightarrow> UpdateResult \<times> world \<Rightarrow> UpdateResult \<times> world" where
  "update_quaestor_file e force dry_run candidate st =
     (case candidate of (resource_name, relative_path) \<Rightarrow>
      case st of (result, w) \<Rightarrow>
        (let target_path = Project relative_path;
             file_type = categorize_file e target_path relative_path
         in case read_shipped e resource_name of
              Inl err \<Rightarrow> (fail relative_path err result, w)
            | Inr new_content \<Rightarrow>
                if should_update_file e w relative_path file_type force then
                  (if \<not> dry_run then
                     (case mkdir e (Project ''.quaestor'') w of
                        Inl err \<Rightarrow> (fail relative_path err result, w)
                      | Inr w1 \<Rightarrow>
                          (case write_text e target_path new_content w1 of
                             Inl err \<Rightarrow> (fail relative_path err result, w1)
                           | Inr w2 \<Rightarrow>
                               (let v = (case extract_version_from_content e new_content of
                                           None \<Rightarrow> ''1.0''
                                         | Some x \<Rightarrow> if x = [] then ''1.0'' else x);
                                    w3 = track_file relative_path file_type v w2
                                in if path_exists w3 target_path
                                   then (result\<lparr>updated := updated result @ [relative_path]\<rparr>, w3)
                                   else (result\<lparr>added := added result @ [relative_path]\<rparr>, w3))))
                   else if path_exists w target_path
                   then (result\<lparr>updated := updated result @ [relative_path]\<rparr>, w)
                   else (result\<lparr>added := added result @ [relative_path]\<rparr>, w))
                else (result\<lparr>skipped := skipped result @ [relative_path]\<rparr>, w)))"

definition update_quaestor_files ::
  "env \<Rightarrow> bool \<Rightarrow> bool \<Rightarrow> UpdateResult \<times> world \<Rightarrow> UpdateResult \<times> world" where
  "update_quaestor_files e force dry_run st =
     foldl (\<lambda>st candidate. update_quaestor_file e force dry_run candidate st) st files_to_process"

text \<open>The name a command file is reported under, \<^verbatim>\<open>f"commands/{cmd_file}"\<close>.\<close>

definition command_name :: "string \<Rightarrow> string" where
  "command_name cmd_file = ''commands/'' @ cmd_file"

text \<open>The body of the loop of \<^verbatim>\<open>_update_command_files\<close> for one command file.\<close>

definition update_command_file ::
  "env \<Rightarrow> bool \<Rightarrow> string \<Rightarrow> UpdateResult \<times> world \<Rightarrow> UpdateResult \<times> world" where
  "update_command_file e dry_run cmd_file st =
     (case st of (result, w) \<Rightarrow>
        (let target_path = Commands cmd_file; name = command_name cmd_file
         in if \<not> path_exists w target_path then
              (if \<not> dry_run then
                 (case read_resource e ''quaestor.commands'' cmd_file of
                    Inl err \<Rightarrow> (fail name err result, w)
                  | Inr content \<Rightarrow>
                      (case mkdir e (Commands []) w of
                         Inl err \<Rightarrow> (fail name err result, w)
                       | Inr w1 \<Rightarrow>
                           (case write_text e target_path content w1 of
                              Inl err \<Rightarrow> (fail name err result, w1)
                            | Inr w2 \<Rightarrow> (result\<lparr>added := added result @ [name]\<rparr>, w2))))
               else (result\<lparr>added := added result @ [name]\<rparr>, w))
            else (result, w)))"

definition update_command_files ::
  "env \<Rightarrow> bool \<Rightarrow> UpdateResult \<times> world \<Rightarrow> UpdateResult \<times> world" where
  "update_command_files e dry_run st =
     foldl (\<lambda>st cmd_file. update_command_file e dry_run cmd_file st) st (command_files e)"

text \<open>\<^verbatim>\<open>QuaestorUpdater._update_claude_md_include\<close>\<close>

definition update_claude_md_include ::
  "env \<Rightarrow> bool \<Rightarrow> UpdateResult \<times> world \<Rightarrow> UpdateResult \<times> world" where
  "update_claude_md_include e dry_run st =
     (case st of (result, w) \<Rightarrow>
        (let claude_path = Project ''CLAUDE.md''
         in if \<not> path_exists w claude_path then (result, w)
            else
              (case read_text e claude_path w of
                 Inl err \<Rightarrow> (fail ''CLAUDE.md'' err result, w)
               | Inr current_content \<Rightarrow>
                   if \<not> py_in (config_start e) current_content then (result, w)
                   else
                     (case read_resource e ''quaestor.templates'' ''CLAUDE_INCLUDE.md'' of
                        Inl err \<Rightarrow> (fail ''CLAUDE.md'' err result, w)
                      | Inr include_content \<Rightarrow>
                          (let config_start_idx = py_find (config_start e) include_content;
                               config_end_idx =
                                 py_find (config_end e) include_content + int (length (config_end e));
                               new_config = py_slice include_content config_start_idx config_end_idx;
                               current_start = py_find (config_start e) current_content;
                               current_end =
                                 py_find (config_end e) current_content + int (length (config_end e));
                               current_config = py_slice current_content current_start current_end
                           in if new_config \<noteq> current_config then
                                (if \<not> dry_run then
                                   (let new_content =
                                          slice_to current_content current_start @ new_config
                                            @ slice_from current_content current_end
                                    in case write_text e claude_path new_content w of
                                         Inl err \<Rightarrow> (fail ''CLAUDE.md'' err result, w)
                                       | Inr w1 \<Rightarrow>
                                           (result\<lparr>updated := updated result
                                                     @ [''CLAUDE.md (config section)'']\<rparr>, w1))
                                 else (result\<lparr>updated := updated result
                                                @ [''CLAUDE.md (config section)'']\<rparr>, w))
                              else (result, w))))))"

text \<open>\<^verbatim>\<open>QuaestorUpdater.update\<close>\<close>

definition update :: "env \<Rightarrow> bool \<Rightarrow> bool \<Rightarrow> bool \<Rightarrow> world \<Rightarrow> UpdateResult \<times> world" where
  "update e backup force dry_run w =
     (let w1 = (if backup \<and> \<not> dry_run then create_backup e w else w);
          w2 = (if \<not> dry_run then set_quaestor_version (version e) w1 else w1);
          st3 = update_quaestor_files e force dry_run (new_result, w2);
          st4 = update_command_files e dry_run st3;
          st5 = update_claude_md_include e dry_run st4
      in if \<not> dry_run then (fst st5, save (snd st5)) else st5)"

section \<open>Concrete inputs\<close>

text \<open>
  An installation with two command files whose resources all ship, the same with two
  resources missing from the package, and the same on a read-only file system; a project
  holding an edited \<^verbatim>\<open>ARCHITECTURE.md\<close>, and an empty one.
\<close>

definition demo_categorize :: "path \<Rightarrow> string \<Rightarrow> FileType" where
  "demo_categorize p rel =
     (if rel = ''.quaestor/ARCHITECTURE.md'' \<or> rel = ''.quaestor/MEMORY.md'' then UserEditable
      else System)"

definition demo_resource :: "string \<Rightarrow> string \<Rightarrow> string + string" where
  "demo_resource package name = Inr (''shipped '' @ name)"

definition broken_resource :: "string \<Rightarrow> string \<Rightarrow> string + string" where
  "broken_resource package name =
     (if name = ''ARCHITECTURE.template.md'' \<or> name = ''check.md''
      then Inl ''No such file or directory''
      else Inr (''shipped '' @ name))"

definition demo_env :: env where
  "demo_env =
     \<lparr>version = ''0.5.0'',
      command_files = [''task.md'', ''check.md''],
      config_start = ''<!-- QUAESTOR CONFIG START -->'',
      config_end = ''<!-- QUAESTOR CONFIG END -->'',
      categorize_file = demo_categorize,
      extract_version_from_content = (\<lambda>content. None),
      is_file_modified = (\<lambda>m fs rel. True),
      read_resource = demo_resource,
      mkdir_error = (\<lambda>p. None),
      write_error = (\<lambda>p. None),
      read_error = (\<lambda>p. None),
      backup_error = None\<rparr>"

definition broken_env :: env where
  "broken_env = demo_env\<lparr>read_resource := broken_resource\<rparr>"

definition readonly_env :: env where
  "readonly_env = demo_env\<lparr>write_error := (\<lambda>p. Some ''Permission denied'')\<rparr>"

definition empty_manifest :: file_manifest where
  "empty_manifest = \<lparr>tool_version = None, entries = Map.empty\<rparr>"

definition demo_world :: world where
  "demo_world =
     \<lparr>files = [Project ''.quaestor/ARCHITECTURE.md'' \<mapsto> ''my notes''],
      manifest = empty_manifest,
      saved_manifest = empty_manifest,
      backups = [],
      trace = []\<rparr>"

definition empty_world :: world where
  "empty_world =
     \<lparr>files = Map.empty, manifest = empty_manifest, saved_manifest = empty_manifest,
      backups = [], trace = []\<rparr>"

text \<open>The template of the coverage scenario.\<close>

definition coverage_template :: string where
  \<open>coverage_template =
     ''Coverage: {{ ">=" + coverage_threshold|string + "%" if coverage_threshold else "optional" }}''\<close>

section \<open>Notions used to state the properties\<close>

text \<open>
  The events of a step on files; a result that only grows; a name recorded in one of the
  four sequences of a result; a world whose trace is extended by file events only; the
  project files written, each reported as updated.
\<close>

fun file_event :: "event \<Rightarrow> bool" where
  "file_event (Mkdir d) = True"
| "file_event (Write_text p c) = True"
| "file_event (Track_file r) = True"
| "file_event ev = False"

definition result_grows :: "UpdateResult \<Rightarrow> UpdateResult \<Rightarrow> bool" where
  "result_grows r r' \<longleftrightarrow>
     set (updated r) \<subseteq> set (updated r') \<and> set (skipped r) \<subseteq> set (skipped r')
     \<and> set (added r) \<subseteq> set (added r') \<and> set (failed r) \<subseteq> set (failed r')"


definition extends :: "world \<Rightarrow> world \<Rightarrow> bool" where
  "extends w w' \<longleftrightarrow>
     (\<exists>evs. trace w' = trace w @ evs \<and> list_all file_event evs)
     \<and> tool_version (manifest w') = tool_version (manifest w)"

definition writes_reported :: "event list \<Rightarrow> UpdateResult \<Rightarrow> bool" where
  "writes_reported evs r \<longleftrightarrow>
     (\<forall>rel c. Write_text (Project rel) c \<in> set evs \<longrightarrow> rel = ''CLAUDE.md'' \<or> rel \<in> set (updated r))"

definition reported_since :: "event list \<Rightarrow> UpdateResult \<times> world \<Rightarrow> bool" where
  "reported_since t0 st \<longleftrightarrow> (\<exists>evs. trace (snd st) = t0 @ evs \<and> writes_reported evs (fst st))"










text \<open>A template that shows a path, and a context whose path has a backslash in it.\<close>

definition path_template :: string where
  "path_template = ''Path: {{ project_path }}''"

definition path_data :: ctx where
  "path_data = [(''project_path'', PStr (''C:'' @ [backslash] @ ''dev''))]"












section \<open>Properties of the updater\<close>

subsection \<open>One step of each loop\<close>

lemma mkdir_files: "mkdir e d w = Inr w1 \<Longrightarrow> files w1 = files w \<and> manifest w1 = manifest w \<and> saved_manifest w1 = saved_manifest w \<and> backups w1 = backups w \<and> trace w1 = trace w @ [Mkdir d]"
  by (auto simp: mkdir_def split: option.splits)

lemma write_text_files:
  "write_text e p c w = Inr w1 \<Longrightarrow> files w1 = (files w)(p \<mapsto> c) \<and> manifest w1 = manifest w \<and> saved_manifest w1 = saved_manifest w \<and> backups w1 = backups w \<and> trace w1 = trace w @ [Write_text p c]"
  by (auto simp: write_text_def split: option.splits)

lemma write_text_ok: "write_error e p = None \<Longrightarrow> write_text e p c w = Inr (w\<lparr>files := (files w)(p \<mapsto> c), trace := trace w @ [Write_text p c]\<rparr>)"
  by (simp add: write_text_def)

lemma mkdir_ok: "mkdir_error e d = None \<Longrightarrow> mkdir e d w = Inr (w\<lparr>trace := trace w @ [Mkdir d]\<rparr>)"
  by (simp add: mkdir_def)

lemma track_file_files: "files (track_file rel t v w) = files w"
  by (simp add: track_file_def)

text \<open>Dry run: no step changes the world.\<close>

lemma quaestor_file_dry: "snd (update_quaestor_file e force True c st) = snd st"
  by (auto simp: update_quaestor_file_def fail_def Let_def split: prod.splits sum.splits)

lemma command_file_dry: "snd (update_command_file e True f st) = snd st"
  by (auto simp: update_command_file_def fail_def Let_def split: prod.splits sum.splits)

lemma claude_dry: "snd (update_claude_md_include e True st) = snd st"
  by (auto simp: update_claude_md_include_def fail_def Let_def split: prod.splits sum.splits)

lemma quaestor_files_dry: "snd (foldl (\<lambda>st c. update_quaestor_file e force True c st) st cs) = snd st"
  by (induction cs arbitrary: st) (simp_all add: quaestor_file_dry)

lemma command_files_dry: "snd (foldl (\<lambda>st f. update_command_file e True f st) st fs) = snd st"
  by (induction fs arbitrary: st) (simp_all add: command_file_dry)

text \<open>
  Claim C4. A dry run changes nothing: whatever the force and backup options and the state
  before, after \<open>update\<close> with \<open>dry_run\<close> the world is the one before. No file has
  another content, neither the manifest object nor the manifest on disk has changed, no
  backup was made, and the trace has no new event, so nothing was written or saved.
\<close>

theorem dry_run_changes_nothing: "snd (update e backup force True w) = w"
  by (simp add: update_def Let_def claude_dry update_command_files_def update_quaestor_files_def
      command_files_dry quaestor_files_dry)

lemma result_grows_refl: "result_grows r r"
  by (simp add: result_grows_def)

lemma result_grows_trans: "result_grows a b \<Longrightarrow> result_grows b c \<Longrightarrow> result_grows a c"
  by (auto simp: result_grows_def)


lemma quaestor_file_grows: "result_grows (fst st) (fst (update_quaestor_file e force dry c st))"
  by (auto simp: update_quaestor_file_def fail_def Let_def result_grows_def
           split: prod.splits sum.splits)

lemma command_file_grows: "result_grows (fst st) (fst (update_command_file e dry f st))"
  by (auto simp: update_command_file_def fail_def Let_def result_grows_def
           split: prod.splits sum.splits)

lemma claude_grows: "result_grows (fst st) (fst (update_claude_md_include e dry st))"
  by (auto simp: update_claude_md_include_def fail_def Let_def result_grows_def
           split: prod.splits sum.splits)

lemma quaestor_files_grows:
  "result_grows (fst st) (fst (foldl (\<lambda>st c. update_quaestor_file e force dry c st) st cs))"
proof (induction cs arbitrary: st)
  case Nil
  show ?case by (simp add: result_grows_refl)
next
  case (Cons c cs)
  show ?case
    using result_grows_trans [OF quaestor_file_grows Cons.IH] by simp
qed

lemma command_files_grows:
  "result_grows (fst st) (fst (foldl (\<lambda>st f. update_command_file e dry f st) st fs))"
proof (induction fs arbitrary: st)
  case Nil
  show ?case by (simp add: result_grows_refl)
next
  case (Cons f fs)
  show ?case
    using result_grows_trans [OF command_file_grows Cons.IH] by simp
qed





text \<open>Frames: a step writes no file but its own target.\<close>

lemma quaestor_file_frame:
  "p \<noteq> Project (snd c) \<Longrightarrow>
   files (snd (update_quaestor_file e force dry c st)) p = files (snd st) p"
  by (auto simp: update_quaestor_file_def fail_def Let_def track_file_files
           split: prod.splits sum.splits dest!: mkdir_files write_text_files)

lemma quaestor_files_frame:
  "p \<notin> Project ` snd ` set cs \<Longrightarrow>
   files (snd (foldl (\<lambda>st c. update_quaestor_file e force dry c st) st cs)) p = files (snd st) p"
  by (induction cs arbitrary: st) (auto simp: quaestor_file_frame)

lemma command_file_frame:
  "p \<noteq> Commands f \<Longrightarrow> files (snd (update_command_file e dry f st)) p = files (snd st) p"
  by (auto simp: update_command_file_def fail_def Let_def
           split: prod.splits sum.splits dest!: mkdir_files write_text_files)

lemma command_files_frame:
  "p \<notin> Commands ` set fs \<Longrightarrow>
   files (snd (foldl (\<lambda>st f. update_command_file e dry f st) st fs)) p = files (snd st) p"
  by (induction fs arbitrary: st) (auto simp: command_file_frame)

lemma claude_frame:
  "p \<noteq> Project ''CLAUDE.md'' \<Longrightarrow>
   files (snd (update_claude_md_include e dry st)) p = files (snd st) p"
  by (auto simp: update_claude_md_include_def fail_def Let_def
           split: prod.splits sum.splits dest!: write_text_files)





lemma update_result:
  "fst (update e backup force dry w) =
     fst (update_claude_md_include e dry
            (update_command_files e dry
               (update_quaestor_files e force dry
                  (new_result,
                   if dry then w
                   else set_quaestor_version (version e)
                          (if backup then create_backup e w else w)))))"
  by (simp add: update_def Let_def)

lemma create_backup_files: "files (create_backup e w) = files w"
  by (simp add: create_backup_def split: option.splits)

lemma set_version_files: "files (set_quaestor_version v w) = files w"
  by (simp add: set_quaestor_version_def)

lemma start_files:
  "files (if dry then w
          else set_quaestor_version v (if backup then create_backup e w else w)) = files w"
  by (simp add: create_backup_files set_version_files)



subsection \<open>The trace of a run\<close>

lemma extends_refl: "extends w w"
  by (simp add: extends_def)

lemma extends_trans: "extends a b \<Longrightarrow> extends b c \<Longrightarrow> extends a c"
  by (auto simp: extends_def)

lemma extends_mkdir: "mkdir e d w = Inr w1 \<Longrightarrow> extends w w1"
  by (auto simp: extends_def dest!: mkdir_files)

lemma extends_write: "write_text e p c w = Inr w1 \<Longrightarrow> extends w w1"
  by (auto simp: extends_def dest!: write_text_files)

lemma extends_track: "extends w (track_file rel t v w)"
  by (simp add: extends_def track_file_def)

lemma quaestor_file_extends: "extends (snd st) (snd (update_quaestor_file e force dry c st))"
  by (auto simp: update_quaestor_file_def fail_def Let_def extends_refl
           split: prod.splits sum.splits
           intro: extends_mkdir extends_trans [OF extends_mkdir extends_write]
                  extends_trans [OF extends_mkdir extends_trans [OF extends_write extends_track]])

lemma command_file_extends: "extends (snd st) (snd (update_command_file e dry f st))"
  by (auto simp: update_command_file_def fail_def Let_def extends_refl
           split: prod.splits sum.splits
           intro: extends_mkdir extends_trans [OF extends_mkdir extends_write])

lemma claude_extends: "extends (snd st) (snd (update_claude_md_include e dry st))"
  by (auto simp: update_claude_md_include_def fail_def Let_def extends_refl
           split: prod.splits sum.splits intro: extends_write)

lemma quaestor_files_extends:
  "extends (snd st) (snd (foldl (\<lambda>st c. update_quaestor_file e force dry c st) st cs))"
proof (induction cs arbitrary: st)
  case Nil
  show ?case by (simp add: extends_refl)
next
  case (Cons c cs)
  show ?case
    using extends_trans [OF quaestor_file_extends Cons.IH] by simp
qed

lemma command_files_extends:
  "extends (snd st) (snd (foldl (\<lambda>st f. update_command_file e dry f st) st fs))"
proof (induction fs arbitrary: st)
  case Nil
  show ?case by (simp add: extends_refl)
next
  case (Cons f fs)
  show ?case
    using extends_trans [OF command_file_extends Cons.IH] by simp
qed

lemma update_world:
  "snd (update e backup force False w) =
     save (snd (update_claude_md_include e False
            (update_command_files e False
               (update_quaestor_files e force False
                  (new_result,
                   set_quaestor_version (version e)
                          (if backup then create_backup e w else w))))))"
  by (simp add: update_def Let_def)

text \<open>
  Claim C10. In every run that is not dry, whatever the force and backup options and
  whatever happens to the files, the events of the run are: the backup if one was asked for
  and made, then the setting of the tool version, then events on files only, then the save
  of the manifest. The manifest on disk is then the manifest object, and its tool version
  is the current one.
\<close>

theorem version_first_save_last:
  "\<exists>mid. trace (snd (update e backup force False w))
            = trace w @ (if backup \<and> backup_error e = None then [Backup] else [])
                @ [Set_version (version e)] @ mid @ [Save]
         \<and> list_all file_event mid
         \<and> saved_manifest (snd (update e backup force False w))
            = manifest (snd (update e backup force False w))
         \<and> tool_version (saved_manifest (snd (update e backup force False w))) = Some (version e)"
proof -
  let ?w0 = "set_quaestor_version (version e) (if backup then create_backup e w else w)"
  let ?st1 = "update_quaestor_files e force False (new_result, ?w0)"
  let ?st2 = "update_command_files e False ?st1"
  let ?st3 = "update_claude_md_include e False ?st2"
  have "extends ?w0 (snd ?st1)"
    unfolding update_quaestor_files_def
    using quaestor_files_extends [of "(new_result, ?w0)"] by simp
  moreover have "extends (snd ?st1) (snd ?st2)"
    unfolding update_command_files_def by (rule command_files_extends)
  moreover have "extends (snd ?st2) (snd ?st3)"
    by (rule claude_extends)
  ultimately have "extends ?w0 (snd ?st3)"
    by (blast intro: extends_trans)
  then obtain mid where mid: "trace (snd ?st3) = trace ?w0 @ mid" "list_all file_event mid"
    and tv: "tool_version (manifest (snd ?st3)) = tool_version (manifest ?w0)"
    by (auto simp: extends_def)
  have t0: "trace ?w0 = trace w @ (if backup \<and> backup_error e = None then [Backup] else [])
              @ [Set_version (version e)]"
    by (simp add: set_quaestor_version_def create_backup_def split: option.splits)
  have v0: "tool_version (manifest ?w0) = Some (version e)"
    by (simp add: set_quaestor_version_def)
  show ?thesis
    unfolding update_world
    by (rule exI [of _ mid]) (simp add: save_def mid t0 tv v0)
qed

subsection \<open>Added or updated\<close>

lemma writes_reported_grows:
  "writes_reported evs r \<Longrightarrow> result_grows r r' \<Longrightarrow> writes_reported evs r'"
  by (auto simp: writes_reported_def result_grows_def)

lemma quaestor_file_reports:
  "\<exists>evs. trace (snd (update_quaestor_file e force dry c st)) = trace (snd st) @ evs
         \<and> writes_reported evs (fst (update_quaestor_file e force dry c st))"
  by (auto simp: update_quaestor_file_def fail_def Let_def writes_reported_def track_file_def
                 path_exists_def
           split: prod.splits sum.splits dest!: mkdir_files write_text_files)

lemma command_file_reports:
  "\<exists>evs. trace (snd (update_command_file e dry f st)) = trace (snd st) @ evs
         \<and> writes_reported evs (fst (update_command_file e dry f st))"
  by (auto simp: update_command_file_def fail_def Let_def writes_reported_def
           split: prod.splits sum.splits dest!: mkdir_files write_text_files)

lemma claude_reports:
  "\<exists>evs. trace (snd (update_claude_md_include e dry st)) = trace (snd st) @ evs
         \<and> writes_reported evs (fst (update_claude_md_include e dry st))"
  by (auto simp: update_claude_md_include_def fail_def Let_def writes_reported_def
           split: prod.splits sum.splits dest!: write_text_files)

lemma reported_step:
  assumes "reported_since t0 st"
    and "\<exists>evs. trace (snd st') = trace (snd st) @ evs \<and> writes_reported evs (fst st')"
    and "result_grows (fst st) (fst st')"
  shows "reported_since t0 st'"
proof -
  obtain evs where evs: "trace (snd st) = t0 @ evs" "writes_reported evs (fst st)"
    using assms(1) by (auto simp: reported_since_def)
  obtain evs' where evs': "trace (snd st') = trace (snd st) @ evs'" "writes_reported evs' (fst st')"
    using assms(2) by blast
  have "writes_reported evs (fst st')"
    using evs(2) assms(3) by (rule writes_reported_grows)
  then have "writes_reported (evs @ evs') (fst st')"
    using evs'(2) by (auto simp: writes_reported_def)
  then show ?thesis
    using evs(1) evs'(1) by (auto simp: reported_since_def)
qed

lemma quaestor_files_reported:
  "reported_since t0 st \<Longrightarrow>
   reported_since t0 (foldl (\<lambda>st c. update_quaestor_file e force dry c st) st cs)"
proof (induction cs arbitrary: st)
  case Nil
  then show ?case by simp
next
  case (Cons c cs)
  have "reported_since t0 (update_quaestor_file e force dry c st)"
    using Cons.prems quaestor_file_reports quaestor_file_grows by (rule reported_step)
  then show ?case using Cons.IH by simp
qed

lemma command_files_reported:
  "reported_since t0 st \<Longrightarrow>
   reported_since t0 (foldl (\<lambda>st f. update_command_file e dry f st) st fs)"
proof (induction fs arbitrary: st)
  case Nil
  then show ?case by simp
next
  case (Cons f fs)
  have "reported_since t0 (update_command_file e dry f st)"
    using Cons.prems command_file_reports command_file_grows by (rule reported_step)
  then show ?case using Cons.IH by simp
qed

text \<open>In a run that is not dry the loop over the candidates adds nothing to \<open>added\<close>.\<close>

lemma quaestor_file_added:
  "added (fst (update_quaestor_file e force False c st)) = added (fst st)"
  by (auto simp: update_quaestor_file_def fail_def Let_def track_file_def path_exists_def
           split: prod.splits sum.splits dest!: mkdir_files write_text_files)

lemma quaestor_files_added:
  "added (fst (foldl (\<lambda>st c. update_quaestor_file e force False c st) st cs)) = added (fst st)"
  by (induction cs arbitrary: st) (simp_all add: quaestor_file_added)

lemma command_file_added:
  "set (added (fst (update_command_file e dry f st))) \<subseteq> set (added (fst st)) \<union> range command_name"
  by (auto simp: update_command_file_def fail_def Let_def split: prod.splits sum.splits)

lemma command_files_added:
  "set (added (fst (foldl (\<lambda>st f. update_command_file e dry f st) st fs)))
     \<subseteq> set (added (fst st)) \<union> range command_name"
proof (induction fs arbitrary: st)
  case Nil
  show ?case by simp
next
  case (Cons f fs)
  show ?case
    using Cons.IH [of "update_command_file e dry f st"] command_file_added [of e dry f st]
    by auto
qed

lemma claude_added: "added (fst (update_claude_md_include e dry st)) = added (fst st)"
  by (auto simp: update_claude_md_include_def fail_def Let_def split: prod.splits sum.splits)

lemma candidate_not_command:
  "(res, rel) \<in> set files_to_process \<Longrightarrow> rel \<notin> range command_name"
  by (auto simp: files_to_process_def command_name_def)

lemma candidate_not_claude:
  "(res, rel) \<in> set files_to_process \<Longrightarrow> rel \<noteq> ''CLAUDE.md''"
  by (auto simp: files_to_process_def)

text \<open>
  Claim C9. In a run that is not dry, no candidate of \<^verbatim>\<open>.quaestor\<close> is ever in \<open>added\<close>,
  and a candidate whose file the run has written is in \<open>updated\<close>, whether or not the file
  was there before: the test for the file comes after the write.
\<close>

theorem written_candidate_is_updated:
  assumes "(res, rel) \<in> set files_to_process"
  shows "rel \<notin> set (added (fst (update e backup force False w)))
     \<and> (Write_text (Project rel) content
          \<in> set (drop (length (trace w)) (trace (snd (update e backup force False w))))
        \<longrightarrow> rel \<in> set (updated (fst (update e backup force False w))))"
proof -
  let ?w0 = "set_quaestor_version (version e) (if backup then create_backup e w else w)"
  let ?st1 = "update_quaestor_files e force False (new_result, ?w0)"
  let ?st2 = "update_command_files e False ?st1"
  let ?st3 = "update_claude_md_include e False ?st2"
  have r: "fst (update e backup force False w) = fst ?st3"
    using update_result [of e backup force False w] by simp
  have "added (fst ?st1) = []"
    unfolding update_quaestor_files_def by (simp add: quaestor_files_added new_result_def)
  then have "set (added (fst ?st2)) \<subseteq> range command_name"
    unfolding update_command_files_def
    using command_files_added [of e False ?st1 "command_files e"]
    by (simp add: update_quaestor_files_def)
  then have "set (added (fst ?st3)) \<subseteq> range command_name"
    by (simp add: claude_added)
  then have not_added: "rel \<notin> set (added (fst ?st3))"
    using candidate_not_command [OF assms] by blast
  have "trace ?w0 = trace w @ (if backup \<and> backup_error e = None then [Backup] else [])
              @ [Set_version (version e)]"
    by (simp add: set_quaestor_version_def create_backup_def split: option.splits)
  then have "reported_since (trace w) (new_result, ?w0)"
    by (auto simp: reported_since_def writes_reported_def)
  then have "reported_since (trace w) ?st1"
    unfolding update_quaestor_files_def by (rule quaestor_files_reported)
  then have "reported_since (trace w) ?st2"
    unfolding update_command_files_def by (rule command_files_reported)
  then have "reported_since (trace w) ?st3"
    using claude_reports claude_grows by (rule reported_step)
  then obtain evs where evs: "trace (snd ?st3) = trace w @ evs" "writes_reported evs (fst ?st3)"
    by (auto simp: reported_since_def)
  have tr: "drop (length (trace w)) (trace (snd (update e backup force False w))) = evs @ [Save]"
    unfolding update_world by (simp add: save_def evs(1))
  have "rel \<in> set (updated (fst ?st3))" if "Write_text (Project rel) content \<in> set (evs @ [Save])"
    using that evs(2) candidate_not_claude [OF assms] by (auto simp: writes_reported_def)
  then show ?thesis
    unfolding r tr using not_added by blast
qed

theorem written_candidate_is_updated_witness:
  "(''CRITICAL_RULES.md'', ''.quaestor/CRITICAL_RULES.md'') \<in> set files_to_process
   \<and> \<not> path_exists empty_world (Project ''.quaestor/CRITICAL_RULES.md'')
   \<and> Write_text (Project ''.quaestor/CRITICAL_RULES.md'') ''shipped CRITICAL_RULES.md''
        \<in> set (drop (length (trace empty_world))
                  (trace (snd (update demo_env False False False empty_world))))
   \<and> ''.quaestor/CRITICAL_RULES.md'' \<in> set (updated (fst (update demo_env False False False empty_world)))
   \<and> ''.quaestor/CRITICAL_RULES.md'' \<notin> set (added (fst (update demo_env False False False empty_world)))"
proof -
  have h1: "(''CRITICAL_RULES.md'', ''.quaestor/CRITICAL_RULES.md'') \<in> set files_to_process"
    by code_simp
  have h2: "\<not> path_exists empty_world (Project ''.quaestor/CRITICAL_RULES.md'')"
    by code_simp
  have h3: "Write_text (Project ''.quaestor/CRITICAL_RULES.md'') ''shipped CRITICAL_RULES.md''
        \<in> set (drop (length (trace empty_world))
                  (trace (snd (update demo_env False False False empty_world))))"
    by code_simp
  show ?thesis
    using h1 h2 h3
      written_candidate_is_updated [OF h1, where e = demo_env and backup = False
        and force = False and w = empty_world and content = "''shipped CRITICAL_RULES.md''"]
    by blast
qed

subsection \<open>User-editable files\<close>

lemma quaestor_file_skip:
  "categorize_file e (Project rel) rel = UserEditable \<Longrightarrow> path_exists (snd st) (Project rel) \<Longrightarrow>
   read_shipped e res = Inr content \<Longrightarrow>
   rel \<in> set (skipped (fst (update_quaestor_file e False dry (res, rel) st)))"
  by (auto simp: update_quaestor_file_def should_update_file_def Let_def split: prod.splits)

lemma quaestor_file_kept:
  "categorize_file e (Project rel) rel = UserEditable \<Longrightarrow> path_exists (snd st) (Project rel) \<Longrightarrow>
   snd (update_quaestor_file e False dry (res, rel) st) = snd st"
  by (auto simp: update_quaestor_file_def should_update_file_def fail_def Let_def
           split: prod.splits sum.splits)

lemma quaestor_file_exists:
  "path_exists (snd st) p \<Longrightarrow> path_exists (snd (update_quaestor_file e force dry c st)) p"
  by (auto simp: update_quaestor_file_def fail_def Let_def path_exists_def track_file_files
           split: prod.splits sum.splits dest!: mkdir_files write_text_files)

lemma quaestor_files_skip:
  "(res, rel) \<in> set cs \<Longrightarrow> categorize_file e (Project rel) rel = UserEditable \<Longrightarrow>
   path_exists (snd st) (Project rel) \<Longrightarrow> read_shipped e res = Inr content \<Longrightarrow>
   rel \<in> set (skipped (fst (foldl (\<lambda>st c. update_quaestor_file e False dry c st) st cs)))"
proof (induction cs arbitrary: st)
  case Nil
  then show ?case by simp
next
  case (Cons c cs)
  show ?case
  proof (cases "c = (res, rel)")
    case True
    have "rel \<in> set (skipped (fst (update_quaestor_file e False dry c st)))"
      using True Cons.prems by (simp add: quaestor_file_skip)
    then show ?thesis
      using quaestor_files_grows [of "update_quaestor_file e False dry c st" e False dry cs]
      by (auto simp: result_grows_def)
  next
    case False
    have "path_exists (snd (update_quaestor_file e False dry c st)) (Project rel)"
      using Cons.prems(3) by (rule quaestor_file_exists)
    then show ?thesis using Cons False by simp
  qed
qed

lemma quaestor_files_kept:
  "categorize_file e (Project rel) rel = UserEditable \<Longrightarrow> path_exists (snd st) (Project rel) \<Longrightarrow>
   files (snd (foldl (\<lambda>st c. update_quaestor_file e False dry c st) st cs)) (Project rel)
     = files (snd st) (Project rel)"
proof (induction cs arbitrary: st)
  case Nil
  then show ?case by simp
next
  case (Cons c cs)
  have keep: "files (snd (update_quaestor_file e False dry c st)) (Project rel)
                = files (snd st) (Project rel)"
  proof (cases "snd c = rel")
    case True
    then have "c = (fst c, rel)" by (cases c) simp
    then have "snd (update_quaestor_file e False dry c st) = snd st"
      using quaestor_file_kept [OF Cons.prems, of dry "fst c"] by simp
    then show ?thesis by simp
  next
    case False
    then show ?thesis by (simp add: quaestor_file_frame)
  qed
  have "path_exists (snd (update_quaestor_file e False dry c st)) (Project rel)"
    using Cons.prems(2) by (rule quaestor_file_exists)
  then show ?case
    using Cons.IH [OF Cons.prems(1)] keep by simp
qed

lemma quaestor_file_forced:
  "read_shipped e res = Inr content \<Longrightarrow> mkdir_error e (Project ''.quaestor'') = None \<Longrightarrow>
   write_error e (Project rel) = None \<Longrightarrow>
   files (snd (update_quaestor_file e True False (res, rel) st)) (Project rel) = Some content
   \<and> rel \<in> set (updated (fst (update_quaestor_file e True False (res, rel) st)))"
  by (auto simp: update_quaestor_file_def should_update_file_def Let_def mkdir_ok write_text_ok
                 track_file_def path_exists_def
           split: prod.splits)

lemma quaestor_files_forced:
  "(res, rel) \<in> set cs \<Longrightarrow> distinct (map snd cs) \<Longrightarrow> read_shipped e res = Inr content \<Longrightarrow>
   mkdir_error e (Project ''.quaestor'') = None \<Longrightarrow> write_error e (Project rel) = None \<Longrightarrow>
   files (snd (foldl (\<lambda>st c. update_quaestor_file e True False c st) st cs)) (Project rel)
     = Some content
   \<and> rel \<in> set (updated (fst (foldl (\<lambda>st c. update_quaestor_file e True False c st) st cs)))"
proof (induction cs arbitrary: st)
  case Nil
  then show ?case by simp
next
  case (Cons c cs)
  show ?case
  proof (cases "c = (res, rel)")
    case True
    let ?st = "update_quaestor_file e True False c st"
    have step: "files (snd ?st) (Project rel) = Some content \<and> rel \<in> set (updated (fst ?st))"
      using True Cons.prems by (simp add: quaestor_file_forced)
    have "rel \<notin> snd ` set cs"
      using True Cons.prems(2) by auto
    then have "Project rel \<notin> Project ` snd ` set cs" by auto
    then have "files (snd (foldl (\<lambda>st c. update_quaestor_file e True False c st) ?st cs)) (Project rel)
                 = files (snd ?st) (Project rel)"
      by (rule quaestor_files_frame)
    moreover have "rel \<in> set (updated (fst (foldl (\<lambda>st c. update_quaestor_file e True False c st) ?st cs)))"
      using step quaestor_files_grows [of ?st e True False cs]
      by (auto simp: result_grows_def)
    ultimately show ?thesis using step by simp
  next
    case False
    then show ?thesis using Cons by simp
  qed
qed

lemma candidate_paths:
  "(res, rel) \<in> set files_to_process \<Longrightarrow>
   Project rel \<noteq> Project ''CLAUDE.md'' \<and> Project rel \<notin> Commands ` set fs"
  by (auto simp: files_to_process_def)

lemma candidates_distinct: "distinct (map snd files_to_process)"
  by (simp add: files_to_process_def)

lemma update_files:
  "files (snd (update e backup force dry w)) =
     files (snd (update_claude_md_include e dry
            (update_command_files e dry
               (update_quaestor_files e force dry
                  (new_result,
                   if dry then w
                   else set_quaestor_version (version e)
                          (if backup then create_backup e w else w))))))"
  by (simp add: update_def Let_def save_def)

text \<open>
  Claim C1, as stated, fails: the shipped resource is read before the decision is taken, so
  a user-editable file that exists and counts as modified, but whose resource cannot be
  read, ends in \<open>failed\<close> and not in \<open>skipped\<close>; and with \<open>force\<close> the file is not written
  in a dry run, nor when the write raises.
\<close>

theorem user_editable_not_skipped_counterexample:
  "categorize_file broken_env (Project ''.quaestor/ARCHITECTURE.md'') ''.quaestor/ARCHITECTURE.md''
     = UserEditable
   \<and> path_exists demo_world (Project ''.quaestor/ARCHITECTURE.md'')
   \<and> is_file_modified broken_env (manifest demo_world) (files demo_world) ''.quaestor/ARCHITECTURE.md''
   \<and> ''.quaestor/ARCHITECTURE.md''
        \<notin> set (skipped (fst (update broken_env False False False demo_world)))
   \<and> files (snd (update demo_env False True True demo_world)) (Project ''.quaestor/ARCHITECTURE.md'')
        = Some ''my notes''
   \<and> files (snd (update readonly_env False True False demo_world))
        (Project ''.quaestor/ARCHITECTURE.md'') = Some ''my notes''"
  by code_simp

text \<open>
  Claim C1, amended. For every candidate that is user-editable, exists and whose shipped
  resource can be read, for every manifest and whatever it says about the file: an update
  without \<open>force\<close> has the path in \<open>skipped\<close> and leaves the file as it was; with \<open>force\<close>,
  in a run that is not dry and in which the directory can be made and the file written,
  the file holds the shipped content afterwards and its path is in \<open>updated\<close>.
\<close>

theorem user_editable_skipped_unless_forced:
  assumes "(res, rel) \<in> set files_to_process"
    and "categorize_file e (Project rel) rel = UserEditable"
    and "path_exists w (Project rel)"
    and "read_shipped e res = Inr content"
  shows "rel \<in> set (skipped (fst (update e backup False dry_run w)))
     \<and> files (snd (update e backup False dry_run w)) (Project rel) = files w (Project rel)
     \<and> (mkdir_error e (Project ''.quaestor'') = None \<and> write_error e (Project rel) = None
        \<longrightarrow> files (snd (update e backup True False w)) (Project rel) = Some content
            \<and> rel \<in> set (updated (fst (update e backup True False w))))"
proof -
  have frames: "files (snd (update_claude_md_include e d (update_command_files e d st))) (Project rel)
                  = files (snd st) (Project rel)" for d st
    using candidate_paths [OF assms(1), of "command_files e"]
    by (simp add: claude_frame update_command_files_def command_files_frame)
  have later: "result_grows (fst st) (fst (update_claude_md_include e d (update_command_files e d st)))"
    for d st
    using result_grows_trans [OF command_files_grows claude_grows]
    by (simp add: update_command_files_def)
  let ?w0 = "if dry_run then w
             else set_quaestor_version (version e) (if backup then create_backup e w else w)"
  let ?st1 = "update_quaestor_files e False dry_run (new_result, ?w0)"
  have ex0: "path_exists (snd (new_result, ?w0)) (Project rel)"
    using assms(3) by (simp add: path_exists_def start_files)
  have "rel \<in> set (skipped (fst ?st1))"
    unfolding update_quaestor_files_def
    using assms(1,2) ex0 assms(4) by (rule quaestor_files_skip)
  then have skip: "rel \<in> set (skipped (fst (update e backup False dry_run w)))"
    unfolding update_result using later [of ?st1 dry_run] by (auto simp: result_grows_def)
  have "files (snd ?st1) (Project rel) = files (snd (new_result, ?w0)) (Project rel)"
    unfolding update_quaestor_files_def using assms(2) ex0 by (rule quaestor_files_kept)
  then have kept: "files (snd (update e backup False dry_run w)) (Project rel) = files w (Project rel)"
    unfolding update_files by (simp add: frames start_files)
  have forced: "files (snd (update e backup True False w)) (Project rel) = Some content
            \<and> rel \<in> set (updated (fst (update e backup True False w)))"
    if ok: "mkdir_error e (Project ''.quaestor'') = None" "write_error e (Project rel) = None"
  proof -
    let ?v0 = "set_quaestor_version (version e) (if backup then create_backup e w else w)"
    let ?su1 = "update_quaestor_files e True False (new_result, ?v0)"
    have q: "files (snd ?su1) (Project rel) = Some content \<and> rel \<in> set (updated (fst ?su1))"
      unfolding update_quaestor_files_def
      using assms(1) candidates_distinct assms(4) ok by (rule quaestor_files_forced)
    have "files (snd (update e backup True False w)) (Project rel) = Some content"
      unfolding update_files using q by (simp add: frames)
    moreover have "rel \<in> set (updated (fst (update e backup True False w)))"
      unfolding update_result using q later [of ?su1 False] by (auto simp: result_grows_def)
    ultimately show ?thesis by simp
  qed
  show ?thesis using skip kept forced by blast
qed

theorem user_editable_skipped_unless_forced_witness:
  "(''templates/ARCHITECTURE.template.md'', ''.quaestor/ARCHITECTURE.md'') \<in> set files_to_process
   \<and> categorize_file demo_env (Project ''.quaestor/ARCHITECTURE.md'') ''.quaestor/ARCHITECTURE.md''
       = UserEditable
   \<and> path_exists demo_world (Project ''.quaestor/ARCHITECTURE.md'')
   \<and> read_shipped demo_env ''templates/ARCHITECTURE.template.md''
       = Inr ''shipped ARCHITECTURE.template.md''
   \<and> mkdir_error demo_env (Project ''.quaestor'') = None
   \<and> write_error demo_env (Project ''.quaestor/ARCHITECTURE.md'') = None
   \<and> ''.quaestor/ARCHITECTURE.md'' \<in> set (skipped (fst (update demo_env False False False demo_world)))
   \<and> files (snd (update demo_env False False False demo_world)) (Project ''.quaestor/ARCHITECTURE.md'')
       = files demo_world (Project ''.quaestor/ARCHITECTURE.md'')
   \<and> files (snd (update demo_env False True False demo_world)) (Project ''.quaestor/ARCHITECTURE.md'')
       = Some ''shipped ARCHITECTURE.template.md''
   \<and> ''.quaestor/ARCHITECTURE.md'' \<in> set (updated (fst (update demo_env False True False demo_world)))"
proof -
  have h1: "(''templates/ARCHITECTURE.template.md'', ''.quaestor/ARCHITECTURE.md'')
              \<in> set files_to_process"
    by code_simp
  have h2: "categorize_file demo_env (Project ''.quaestor/ARCHITECTURE.md'')
              ''.quaestor/ARCHITECTURE.md'' = UserEditable"
    by code_simp
  have h3: "path_exists demo_world (Project ''.quaestor/ARCHITECTURE.md'')"
    by code_simp
  have h4: "read_shipped demo_env ''templates/ARCHITECTURE.template.md''
              = Inr ''shipped ARCHITECTURE.template.md''"
    by code_simp
  have h5: "mkdir_error demo_env (Project ''.quaestor'') = None"
    by code_simp
  have h6: "write_error demo_env (Project ''.quaestor/ARCHITECTURE.md'') = None"
    by code_simp
  show ?thesis
    using h1 h2 h3 h4 h5 h6
      user_editable_skipped_unless_forced [OF h1 h2 h3 h4, where backup = False
        and dry_run = False]
    by blast
qed

section \<open>Properties of the template engine\<close>

subsection \<open>The coverage scenario\<close>

lemma coverage_with_threshold:
  "render_template_string coverage_template [(''coverage_threshold'', PInt 85)]
     = Some ''Coverage: >=85%''"
  by code_simp

lemma coverage_without_threshold:
  "render_template_string coverage_template [] = Some ''Coverage: optional''"
  by code_simp

text \<open>
  Claim C6. The threshold-or-optional pattern: the coverage template renders to
  \<^verbatim>\<open>Coverage: >=85%\<close> in the context where \<^verbatim>\<open>coverage_threshold\<close> is 85, and to
  \<^verbatim>\<open>Coverage: optional\<close> in the empty context.
\<close>

theorem threshold_or_optional:
  "render_template_string coverage_template [(''coverage_threshold'', PInt 85)]
     = Some ''Coverage: >=85%''
   \<and> render_template_string coverage_template [] = Some ''Coverage: optional''"
  using coverage_with_threshold coverage_without_threshold by simp

subsection \<open>Repeats of a character class\<close>








subsection \<open>The residual cleanup\<close>



































subsection \<open>Values with a backslash\<close>

text \<open>
  Claim C3. Rendering is claimed never to fail. The key loop hands \<^verbatim>\<open>str(value)\<close> to
  \<^verbatim>\<open>re.sub\<close> as the replacement, where a backslash starts an escape: for the path
  \<^verbatim>\<open>C:\dev\<close> the replacement has the bad escape \<^verbatim>\<open>\d\<close>, and \<^verbatim>\<open>re.sub\<close> raises before it
  looks at the template.
\<close>

theorem backslash_value_raises: "render_template_string path_template path_data = None"
  by code_simp

subsection \<open>Text without an opening brace\<close>






subsection \<open>Text forms without a backslash\<close>








subsection \<open>The pattern of a key\<close>


























subsection \<open>The pattern of the validator\<close>
















subsection \<open>Counting braces\<close>






subsection \<open>One placeholder\<close>












end
